theory Spec2Isabelle
  imports Main "HOL-Library.AList"
begin

section \<open>Python exceptions\<close>

text \<open>
  The exceptions that the modelled part of \<^verbatim>\<open>setup.py\<close> raises, catches or lets through.
  \<open>CompileError\<close> is \<^verbatim>\<open>setuptools.distutils.errors.CompileError\<close>;
  \<open>DistutilsPlatformError\<close> stands for a toolchain failure of another class (a compiler
  that cannot be initialised); \<open>OSError\<close> covers its filesystem subclasses
  (\<^verbatim>\<open>NotADirectoryError\<close>, \<^verbatim>\<open>IsADirectoryError\<close>, \<^verbatim>\<open>FileExistsError\<close>).
\<close>

datatype pyerror =
    CompileError
  | DistutilsPlatformError
  | RuntimeError string
  | AttributeError
  | ValueError
  | IndexError
  | ReadError
  | EOFError
  | OSError

section \<open>The compiler object\<close>

text \<open>
  \<open>compile c args\<close> is what \<^verbatim>\<open>compiler.compile([file.name], extra_postargs=args)\<close> does on the
  one-line program that \<open>has_flag\<close> writes: it returns, or it raises. \<open>compiler_so\<close> is the
  attribute of that name: missing, a collection without a \<^verbatim>\<open>remove\<close> method, or a list.
\<close>

datatype compile_outcome = Compiled | Raises pyerror

datatype so_attr = NoAttribute | Tuple "string list" | FlagList "string list"

record ccompiler =
  compiler_type :: string
  compile :: "string list \<Rightarrow> compile_outcome"
  compiler_so :: so_attr

type_synonym compile_log = "string list list"

subsection \<open>\<open>has_flag\<close>\<close>

text \<open>
  The log receives the \<^verbatim>\<open>extra_postargs\<close> of every call of \<^verbatim>\<open>compile\<close>, oldest first.
  Only \<open>CompileError\<close> is caught; the temporary file of the \<^verbatim>\<open>with\<close> block is created and
  deleted inside the call and leaves no trace in the state.
\<close>

definition has_flag :: "ccompiler \<Rightarrow> string \<Rightarrow> compile_log \<Rightarrow> (pyerror + bool) \<times> compile_log" where
  "has_flag compiler flagname log =
     (case compile compiler [flagname] of
        Raises e \<Rightarrow>
          (if e = CompileError then (Inr False, log @ [[flagname]])
           else (Inl e, log @ [[flagname]]))
      | Compiled \<Rightarrow> (Inr True, log @ [[flagname]]))"

subsection \<open>\<open>cpp_flag\<close>\<close>

definition cpp_flags :: "string list" where
  "cpp_flags = [''-std=c++14'', ''-std=c++11'']"

definition unsupported_compiler :: pyerror where
  "unsupported_compiler =
     RuntimeError ''Unsupported compiler -- at least C++11 support is needed!''"

text \<open>The \<^verbatim>\<open>for\<close> loop of \<open>cpp_flag\<close> over the flags still to try, and the \<^verbatim>\<open>raise\<close> after it.\<close>

fun cpp_flag_loop :: "ccompiler \<Rightarrow> string list \<Rightarrow> compile_log \<Rightarrow> (pyerror + string) \<times> compile_log" where
  "cpp_flag_loop compiler [] log = (Inl unsupported_compiler, log)"
| "cpp_flag_loop compiler (flag # flags) log =
     (case has_flag compiler flag log of
        (Inl e, log') \<Rightarrow> (Inl e, log')
      | (Inr supported, log') \<Rightarrow>
          (if supported then (Inr flag, log') else cpp_flag_loop compiler flags log'))"

definition cpp_flag :: "ccompiler \<Rightarrow> compile_log \<Rightarrow> (pyerror + string) \<times> compile_log" where
  "cpp_flag compiler log = cpp_flag_loop compiler cpp_flags log"

section \<open>The \<open>BuildExt\<close> command\<close>

text \<open>
  \<open>c_opts\<close> and \<open>l_opts\<close> are class attributes: dictionaries from the compiler type to a
  list object. \<open>build_extensions\<close> appends to the list it finds there and hands the same
  object to every extension, so lists live in a heap and are named by their address.
  \<open>version\<close> is \<^verbatim>\<open>self.distribution.get_version()\<close>, \<open>version_info\<close> the first two
  components of \<^verbatim>\<open>sys.version_info\<close>.
\<close>

type_synonym addr = nat

record extension =
  extra_compile_args :: addr
  extra_link_args :: addr

record build_state =
  heap :: "addr \<Rightarrow> string list"
  next_addr :: addr
  c_opts :: "(string \<times> addr) list"
  l_opts :: "(string \<times> addr) list"
  compiler :: ccompiler
  version :: string
  version_info :: "nat \<times> nat"
  extensions :: "extension list"
  compile_log :: compile_log

definition darwin_opts :: "string list" where
  "darwin_opts = [''-stdlib=libc++'', ''-mmacosx-version-min=10.7'']"

text \<open>
  The state after the class body has run on the given \<^verbatim>\<open>sys.platform\<close> and one
  \<^verbatim>\<open>Extension\<close> has been created, whose two argument lists are empty lists of its own.
\<close>

definition BuildExt :: "string \<Rightarrow> ccompiler \<Rightarrow> string \<Rightarrow> nat \<times> nat \<Rightarrow> build_state" where
  "BuildExt platform cc v vi =
     \<lparr>heap = (\<lambda>a. [])
        (0 := [''/EHsc''],
         1 := (if platform = ''darwin'' then [] @ darwin_opts else []),
         2 := [],
         3 := (if platform = ''darwin'' then [] @ darwin_opts else [])),
      next_addr = 6,
      c_opts = [(''msvc'', 0), (''unix'', 1)],
      l_opts = [(''msvc'', 2), (''unix'', 3)],
      compiler = cc,
      version = v,
      version_info = vi,
      extensions = [\<lparr>extra_compile_args = 4, extra_link_args = 5\<rparr>],
      compile_log = []\<rparr>"

text \<open>\<^verbatim>\<open>d.get(k, [])\<close>: the list stored under the key, or a new empty list.\<close>

definition dict_get :: "(string \<times> addr) list \<Rightarrow> string \<Rightarrow> build_state \<Rightarrow> addr \<times> build_state" where
  "dict_get d k s =
     (case map_of d k of
        Some a \<Rightarrow> (a, s)
      | None \<Rightarrow>
          (next_addr s,
           s\<lparr>heap := (heap s)(next_addr s := []), next_addr := Suc (next_addr s)\<rparr>))"

text \<open>\<^verbatim>\<open>opts.append(x)\<close> on the list object at an address.\<close>

definition list_append :: "addr \<Rightarrow> string \<Rightarrow> build_state \<Rightarrow> build_state" where
  "list_append a x s = s\<lparr>heap := (heap s)(a := heap s a @ [x])\<rparr>"

definition dquote :: char where
  "dquote = CHR 0x22"

definition backslash :: char where
  "backslash = CHR 0x5C"

text \<open>The two format strings of the version macro, applied to the version.\<close>

definition version_info_define :: "string \<Rightarrow> string" where
  "version_info_define v = ''-DVERSION_INFO='' @ [dquote] @ v @ [dquote]"

definition version_info_define_escaped :: "string \<Rightarrow> string" where
  "version_info_define_escaped v =
     ''/DVERSION_INFO='' @ [backslash, dquote] @ v @ [backslash, dquote]"

text \<open>\<^verbatim>\<open>sys.version_info >= (3, 9)\<close>: tuples compare lexicographically.\<close>

definition version_info_ge :: "nat \<times> nat \<Rightarrow> nat \<times> nat \<Rightarrow> bool" where
  "version_info_ge v w \<longleftrightarrow> fst v > fst w \<or> (fst v = fst w \<and> snd v \<ge> snd w)"

text \<open>The branch \<^verbatim>\<open>if ct == 'unix'\<close>.\<close>

definition unix_flags :: "addr \<Rightarrow> build_state \<Rightarrow> (pyerror + unit) \<times> build_state" where
  "unix_flags opts s =
     (let s1 = list_append opts (version_info_define (version s)) s in
      case cpp_flag (compiler s1) (compile_log s1) of
        (Inl e, log) \<Rightarrow> (Inl e, s1\<lparr>compile_log := log\<rparr>)
      | (Inr flag, log) \<Rightarrow>
          (let s2 = list_append opts flag (s1\<lparr>compile_log := log\<rparr>) in
           case has_flag (compiler s2) ''-fvisibility=hidden'' (compile_log s2) of
             (Inl e, log') \<Rightarrow> (Inl e, s2\<lparr>compile_log := log'\<rparr>)
           | (Inr supported, log') \<Rightarrow>
               (Inr (),
                if supported
                then list_append opts ''-fvisibility=hidden'' (s2\<lparr>compile_log := log'\<rparr>)
                else s2\<lparr>compile_log := log'\<rparr>)))"

text \<open>The branch \<^verbatim>\<open>elif ct == 'msvc'\<close>.\<close>

definition msvc_flags :: "addr \<Rightarrow> build_state \<Rightarrow> build_state" where
  "msvc_flags opts s =
     (if version_info_ge (version_info s) (3, 9)
      then list_append opts (version_info_define (version s)) s
      else list_append opts (version_info_define_escaped (version s)) s)"

text \<open>
  \<^verbatim>\<open>xs.remove(x)\<close> removes the first occurrence and raises \<open>ValueError\<close> when there is
  none; reading a missing attribute, or the method \<^verbatim>\<open>remove\<close> of a tuple, raises
  \<open>AttributeError\<close>.
\<close>

definition list_remove :: "string \<Rightarrow> string list \<Rightarrow> pyerror + string list" where
  "list_remove x xs = (if x \<in> set xs then Inr (remove1 x xs) else Inl ValueError)"

definition compiler_so_remove :: "string \<Rightarrow> ccompiler \<Rightarrow> pyerror + ccompiler" where
  "compiler_so_remove x cc =
     (case compiler_so cc of
        NoAttribute \<Rightarrow> Inl AttributeError
      | Tuple xs \<Rightarrow> Inl AttributeError
      | FlagList xs \<Rightarrow>
          (case list_remove x xs of
             Inl e \<Rightarrow> Inl e
           | Inr xs' \<Rightarrow> Inr (cc\<lparr>compiler_so := FlagList xs'\<rparr>)))"

text \<open>The \<^verbatim>\<open>try\<close> statement around the removal, with its \<^verbatim>\<open>except (AttributeError, ValueError)\<close>.\<close>

definition remove_strict_prototypes :: "ccompiler \<Rightarrow> pyerror + ccompiler" where
  "remove_strict_prototypes cc =
     (case compiler_so_remove ''-Wstrict-prototypes'' cc of
        Inl e \<Rightarrow> (if e = AttributeError \<or> e = ValueError then Inr cc else Inl e)
      | Inr cc' \<Rightarrow> Inr cc')"

text \<open>
  \<open>build_extensions\<close> up to its last line, the call of the method of the base class,
  which compiles and links and lies outside \<^verbatim>\<open>setup.py\<close>. The state is returned also
  when an exception leaves the method.
\<close>

definition build_extensions :: "build_state \<Rightarrow> (pyerror + unit) \<times> build_state" where
  "build_extensions self =
     (let ct = compiler_type (compiler self);
          (opts, s1) = dict_get (c_opts self) ct self;
          (link_opts, s2) = dict_get (l_opts s1) ct s1;
          (r, s3) =
            (if ct = ''unix'' then unix_flags opts s2
             else if ct = ''msvc'' then (Inr (), msvc_flags opts s2)
             else (Inr (), s2))
      in case r of
           Inl e \<Rightarrow> (Inl e, s3)
         | Inr u \<Rightarrow>
             (case remove_strict_prototypes (compiler s3) of
                Inl e \<Rightarrow> (Inl e, s3)
              | Inr cc \<Rightarrow>
                  (Inr (),
                   s3\<lparr>compiler := cc,
                      extensions :=
                        map (\<lambda>ext. ext\<lparr>extra_compile_args := opts, extra_link_args := link_opts\<rparr>)
                          (extensions s3)\<rparr>)))"

text \<open>The compile and link arguments that each extension carries in a state.\<close>

definition extension_args :: "build_state \<Rightarrow> (string list \<times> string list) list" where
  "extension_args s =
     map (\<lambda>ext. (heap s (extra_compile_args ext), heap s (extra_link_args ext))) (extensions s)"

text \<open>
  The list object that \<open>build_extensions\<close> binds to \<open>opts\<close> in a state, and what it holds
  before the call: the table entry of the compiler type, or a new empty list.
\<close>

definition opts_addr :: "build_state \<Rightarrow> addr" where
  "opts_addr s =
     (case map_of (c_opts s) (compiler_type (compiler s)) of
        Some a \<Rightarrow> a
      | None \<Rightarrow> next_addr s)"

definition opts_before :: "build_state \<Rightarrow> string list" where
  "opts_before s =
     (case map_of (c_opts s) (compiler_type (compiler s)) of
        Some a \<Rightarrow> heap s a
      | None \<Rightarrow> [])"

text \<open>Every list that the two tables name has been allocated.\<close>

definition allocated :: "build_state \<Rightarrow> bool" where
  "allocated s \<longleftrightarrow> (\<forall>a \<in> snd ` (set (c_opts s) \<union> set (l_opts s)). a < next_addr s)"

section \<open>The file system\<close>

text \<open>
  A path is the list of its components, relative to the directory \<^verbatim>\<open>setup.py\<close> runs in:
  \<^verbatim>\<open>'lib/boost'\<close> is \<open>[''lib'', ''boost'']\<close>, and \<^verbatim>\<open>os.path.join(d, n)\<close> is \<open>d @ [n]\<close>.
  A directory lists its entries in the order the operating system returns them; the names
  in one directory are distinct in a real file system, and a lookup takes the first.
  There are directories and regular files, no symbolic links, and every directory can be
  read. Names are ASCII and compared as they are written, as on a POSIX system.
  A file is a gzip-compressed tar archive or anything else. An archive is known by its
  members and by whether the compressed stream ends before the archive does. A member
  with a relative name has the directories in its name, its last component and its kind;
  these components are proper names (not empty, not \<^verbatim>\<open>.\<close> or \<^verbatim>\<open>..\<close>). A member with an
  absolute name has the place its name denotes, a path below the working directory or
  none when it lies outside of it, and its kind.
\<close>

type_synonym path = "string list"

datatype member =
    Member (member_dirs: "string list") (member_name: string) (member_isdir: bool)
  | Absolute "path option" bool

datatype content = Data | TarGz "member list" bool

datatype node = File content | Dir "(string \<times> node) list"

fun lookup :: "node \<Rightarrow> path \<Rightarrow> node option" where
  "lookup n [] = Some n"
| "lookup n (c # cs) =
     (case n of
        File x \<Rightarrow> None
      | Dir es \<Rightarrow> (case map_of es c of None \<Rightarrow> None | Some ch \<Rightarrow> lookup ch cs))"

text \<open>\<^verbatim>\<open>os.path.isdir\<close>.\<close>

definition isdir :: "node \<Rightarrow> path \<Rightarrow> bool" where
  "isdir root p = (case lookup root p of Some (Dir es) \<Rightarrow> True | _ \<Rightarrow> False)"

text \<open>An entry that exists and is not a directory.\<close>

definition isfile :: "node \<Rightarrow> path \<Rightarrow> bool" where
  "isfile root p = (case lookup root p of Some (File x) \<Rightarrow> True | _ \<Rightarrow> False)"

subsection \<open>\<^verbatim>\<open>fnmatch\<close>\<close>

text \<open>
  A pattern is read as \<^verbatim>\<open>fnmatch.translate\<close> reads it: \<^verbatim>\<open>*\<close> matches any string, \<^verbatim>\<open>?\<close> any
  character, \<^verbatim>\<open>[...]\<close> one character of a set, and any other character itself.
  An opening bracket is closed by the first \<^verbatim>\<open>]\<close> that is not the first character of the
  set, an \<^verbatim>\<open>!\<close> in front not counted; without one the bracket stands for itself.
\<close>

datatype glob_token =
  Star | AnyChar | Lit char | CharSet bool "char list" "(char \<times> char) list" | Never

definition close_index :: "string \<Rightarrow> nat option" where
  "close_index s =
     (let j0 = (if take 1 s = ''!'' then 1 else 0);
          j1 = (if take 1 (drop j0 s) = '']'' then Suc j0 else j0);
          j = j1 + length (takeWhile (\<lambda>c. c \<noteq> CHR '']'') (drop j1 s))
      in if j < length s then Some j else None)"

text \<open>
  The inside of a bracket with a hyphen is cut at the hyphens that stand between two
  characters: the first is looked for after the first character of the set, the next two
  characters after the end of the range. Where two pieces meet there is a range, from the
  last character of the one to the first of the other. A hyphen at the very end belongs to
  the piece before it.
\<close>

definition find_dash :: "nat \<Rightarrow> string \<Rightarrow> nat option" where
  "find_dash k s =
     (let n = k + length (takeWhile (\<lambda>c. c \<noteq> CHR ''-'') (drop k s))
      in if n < length s then Some n else None)"

fun split_chunks :: "nat \<Rightarrow> string \<Rightarrow> string list" where
  "split_chunks k s =
     (case find_dash k s of
        None \<Rightarrow> [s]
      | Some n \<Rightarrow>
          (if n < length s then take n s # split_chunks 2 (drop (Suc n) s) else [s]))"

definition close_chunks :: "string list \<Rightarrow> string list" where
  "close_chunks chunks =
     (if last chunks = [] \<and> 2 \<le> length chunks
      then butlast (butlast chunks) @ [last (butlast chunks) @ ''-'']
      else chunks)"

text \<open>A range whose first character comes after its last is removed, from the right.\<close>

fun drop_empty_ranges :: "string list \<Rightarrow> string list" where
  "drop_empty_ranges (c # d # chunks) =
     (case drop_empty_ranges (d # chunks) of
        [] \<Rightarrow> [c]
      | r # rs \<Rightarrow>
          (if c \<noteq> [] \<and> r \<noteq> [] \<and> (of_char (hd r) :: nat) < of_char (last c)
           then (butlast c @ tl r) # rs
           else c # r # rs))"
| "drop_empty_ranges chunks = chunks"

text \<open>
  The set of a bracket: nothing at all when no character is left, any character when only
  the \<^verbatim>\<open>!\<close> is left, and otherwise the characters of the pieces and the ranges between
  them, complemented when the first character is \<^verbatim>\<open>!\<close>.
\<close>

definition bracket :: "string \<Rightarrow> glob_token" where
  "bracket stuff =
     (let chunks =
            (if CHR ''-'' \<in> set stuff
             then drop_empty_ranges
                    (close_chunks (split_chunks (if take 1 stuff = ''!'' then 2 else 1) stuff))
             else [stuff])
      in if concat chunks = [] then Never
         else if chunks = [''!''] then AnyChar
         else
           (let negated = (take 1 (hd chunks) = ''!'');
                chunks' = (if negated then tl (hd chunks) # tl chunks else chunks)
            in CharSet negated (concat chunks')
                 (zip (map last (butlast chunks')) (map hd (tl chunks')))))"

fun translate :: "string \<Rightarrow> glob_token list" where
  "translate [] = []"
| "translate (c # pat) =
     (if c = CHR ''*'' then Star # translate pat
      else if c = CHR ''?'' then AnyChar # translate pat
      else if c = CHR ''['' then
        (case close_index pat of
           None \<Rightarrow> Lit CHR ''['' # translate pat
         | Some j \<Rightarrow> bracket (take j pat) # translate (drop (Suc j) pat))
      else Lit c # translate pat)"

definition in_set :: "char \<Rightarrow> char list \<Rightarrow> (char \<times> char) list \<Rightarrow> bool" where
  "in_set c singles ranges \<longleftrightarrow>
     c \<in> set singles \<or>
     (\<exists>r\<in>set ranges. (of_char (fst r) :: nat) \<le> of_char c \<and> (of_char c :: nat) \<le> of_char (snd r))"

text \<open>The whole name has to match.\<close>

fun matches :: "glob_token list \<Rightarrow> string \<Rightarrow> bool" where
  "matches [] s = (s = [])"
| "matches (Star # ts) [] = matches ts []"
| "matches (Star # ts) (c # s) = (matches ts (c # s) \<or> matches (Star # ts) s)"
| "matches (t # ts) [] = False"
| "matches (AnyChar # ts) (c # s) = matches ts s"
| "matches (Lit a # ts) (c # s) = (c = a \<and> matches ts s)"
| "matches (CharSet negated singles ranges # ts) (c # s) =
     (negated \<noteq> in_set c singles ranges \<and> matches ts s)"
| "matches (Never # ts) (c # s) = False"

definition fnmatch :: "string \<Rightarrow> string \<Rightarrow> bool" where
  "fnmatch name pat = matches (translate pat) name"

subsection \<open>\<^verbatim>\<open>glob\<close> and \<^verbatim>\<open>os.walk\<close>\<close>

text \<open>
  \<^verbatim>\<open>glob\<close> reads every component of its argument as a pattern. A path without any of
  the characters \<^verbatim>\<open>*\<close>, \<^verbatim>\<open>?\<close> and \<^verbatim>\<open>[\<close> is returned when it exists. Otherwise the
  directories are those the part before the last component matches, or that part itself
  when it has none of the three characters, and in each of them the last component is
  matched against the entries, or looked up when it has none of the three. A name that
  begins with a dot is matched only by a pattern that begins with a dot.
\<close>

definition has_magic :: "string \<Rightarrow> bool" where
  "has_magic s \<longleftrightarrow> (\<exists>c\<in>set s. c = CHR ''*'' \<or> c = CHR ''?'' \<or> c = CHR ''['')"

definition hidden :: "string \<Rightarrow> bool" where
  "hidden n \<longleftrightarrow> take 1 n = ''.''"

definition is_Dir :: "node \<Rightarrow> bool" where
  "is_Dir n = (case n of Dir es \<Rightarrow> True | File x \<Rightarrow> False)"

text \<open>The names in a directory, directories only on demand; none when it cannot be listed.\<close>

definition listdir :: "node \<Rightarrow> path \<Rightarrow> bool \<Rightarrow> string list" where
  "listdir root d dironly =
     (case lookup root d of
        Some (Dir es) \<Rightarrow> map fst (filter (\<lambda>e. \<not> dironly \<or> is_Dir (snd e)) es)
      | _ \<Rightarrow> [])"

definition glob1 :: "node \<Rightarrow> path \<Rightarrow> string \<Rightarrow> bool \<Rightarrow> string list" where
  "glob1 root d pattern dironly =
     (let names = listdir root d dironly;
          names' = (if \<not> hidden pattern then filter (\<lambda>x. \<not> hidden x) names else names)
      in filter (\<lambda>n. fnmatch n pattern) names')"

definition glob0 :: "node \<Rightarrow> path \<Rightarrow> string \<Rightarrow> string list" where
  "glob0 root d basename = (if lookup root (d @ [basename]) \<noteq> None then [basename] else [])"

text \<open>The pattern is given with its last component first.\<close>

fun iglob :: "node \<Rightarrow> string list \<Rightarrow> bool \<Rightarrow> path list" where
  "iglob root [] dironly = []"
| "iglob root (basename # dirname) dironly =
     (if \<not> has_magic basename \<and> \<not> (\<exists>c\<in>set dirname. has_magic c) then
        (if lookup root (rev dirname @ [basename]) \<noteq> None then [rev dirname @ [basename]]
         else [])
      else
        (let dirs =
               (if \<exists>c\<in>set dirname. has_magic c then iglob root dirname True
                else [rev dirname])
         in concat
              (map (\<lambda>d. map (\<lambda>name. d @ [name])
                           (if has_magic basename then glob1 root d basename dironly
                            else glob0 root d basename))
                 dirs)))"

definition glob :: "node \<Rightarrow> path \<Rightarrow> path list" where
  "glob root pathname = iglob root (rev pathname) False"

text \<open>
  \<^verbatim>\<open>os.walk(top)\<close>, top down: for the directory itself and then for every directory below
  it the triple of its path, the names of its subdirectories and the names of its other
  entries. Nothing is yielded when the path is no directory.
\<close>

fun walk :: "path \<Rightarrow> node \<Rightarrow> (path \<times> string list \<times> string list) list" where
  "walk dirpath (File x) = []"
| "walk dirpath (Dir es) =
     (dirpath, map fst (filter (\<lambda>e. is_Dir (snd e)) es), map fst (filter (\<lambda>e. \<not> is_Dir (snd e)) es)) #
     concat (map (\<lambda>e. walk (dirpath @ [fst e]) (snd e)) es)"

definition os_walk :: "node \<Rightarrow> path \<Rightarrow> (path \<times> string list \<times> string list) list" where
  "os_walk root dirpath =
     (case lookup root dirpath of Some n \<Rightarrow> walk dirpath n | None \<Rightarrow> [])"

subsection \<open>\<open>get_include_paths\<close> and \<open>get_files\<close>\<close>

definition get_include_paths :: "path list" where
  "get_include_paths =
     (let include_dirs =
        [[''boost''], [''eigen''], [''eigen'', ''unsupported''], [''vinecopulib'', ''include''],
         [''wdm'', ''include'']]
      in map (\<lambda>path. ''lib'' # path) include_dirs)"

text \<open>One list for each path, appended to \<open>sources\<close> as it is.\<close>

definition get_files :: "node \<Rightarrow> path list \<Rightarrow> path list list" where
  "get_files root paths =
     map (\<lambda>path. [y. x \<leftarrow> os_walk root path, y \<leftarrow> glob root (fst x @ [''*'']), \<not> isdir root y])
       paths"

text \<open>The argument \<^verbatim>\<open>depends\<close> of the \<^verbatim>\<open>Extension\<close>.\<close>

definition depends :: "node \<Rightarrow> path list list" where
  "depends root = get_files root get_include_paths"

subsection \<open>Writing below a directory\<close>

text \<open>
  \<open>put p d n\<close> creates the entry \<open>p\<close> below \<open>n\<close>, a directory when \<open>d\<close> holds and a file
  otherwise, with the directories missing on the way, as \<^verbatim>\<open>tarfile\<close> does for one member.
  An existing file is overwritten and an existing directory is kept; a file where a
  directory is needed, or a directory where the file is to go, is an \<open>OSError\<close>.
\<close>

fun chain :: "path \<Rightarrow> bool \<Rightarrow> node" where
  "chain [] d = (if d then Dir [] else File Data)"
| "chain (c # cs) d = Dir [(c, chain cs d)]"

fun put :: "path \<Rightarrow> bool \<Rightarrow> node \<Rightarrow> pyerror + node" where
  "put [] d n =
     (case n of
        Dir es \<Rightarrow> (if d then Inr n else Inl OSError)
      | File x \<Rightarrow> (if d then Inl OSError else Inr (File Data)))"
| "put (c # cs) d n =
     (case n of
        File x \<Rightarrow> Inl OSError
      | Dir es \<Rightarrow>
          (case map_of es c of
             None \<Rightarrow> Inr (Dir (es @ [(c, chain cs d)]))
           | Some ch \<Rightarrow>
               (case put cs d ch of
                  Inl e \<Rightarrow> Inl e
                | Inr ch' \<Rightarrow> Inr (Dir (AList.update c ch' es)))))"

text \<open>
  Where a member is written when the archive is extracted to \<open>dest\<close>, no extraction
  filter being set: a relative name is joined to \<open>dest\<close>, an absolute name is taken as it
  is, whatever \<open>dest\<close> is.
\<close>

fun member_target :: "path \<Rightarrow> member \<Rightarrow> path option" where
  "member_target dest (Member dirs name d) = Some (dest @ dirs @ [name])"
| "member_target dest (Absolute place d) = place"

fun member_kind :: "member \<Rightarrow> bool" where
  "member_kind (Member dirs name d) = d"
| "member_kind (Absolute place d) = d"

text \<open>
  The members in archive order; the first failure ends the extraction. What is written
  outside the working directory leaves the tree as it is.
\<close>

fun extract_members :: "path \<Rightarrow> member list \<Rightarrow> node \<Rightarrow> (pyerror + unit) \<times> node" where
  "extract_members dest [] root = (Inr (), root)"
| "extract_members dest (m # ms) root =
     (case member_target dest m of
        None \<Rightarrow> extract_members dest ms root
      | Some target \<Rightarrow>
          (case put target (member_kind m) root of
             Inl e \<Rightarrow> (Inl e, root)
           | Inr root' \<Rightarrow> extract_members dest ms root'))"

subsection \<open>\<^verbatim>\<open>tarfile\<close>\<close>

text \<open>
  The state of the file system side: the tree, the archives that are open, and the
  archives on which \<^verbatim>\<open>extractall\<close> has been called, oldest first.
\<close>

record fs_state =
  cwd :: node
  open_archives :: "path list"
  extractall_log :: "path list"

record tarfile =
  tar_name :: path
  tar_members :: "member list"
  tar_truncated :: bool

text \<open>
  \<^verbatim>\<open>tarfile.open(name)\<close> reads the first header: it fails on a directory and on a file
  that is no archive with an \<open>OSError\<close> and a \<open>ReadError\<close>, and on an archive cut off before
  its first member with the \<open>EOFError\<close> of the decompression.
\<close>

definition tarfile_open :: "path \<Rightarrow> fs_state \<Rightarrow> (pyerror + tarfile) \<times> fs_state" where
  "tarfile_open name s =
     (case lookup (cwd s) name of
        None \<Rightarrow> (Inl OSError, s)
      | Some (Dir es) \<Rightarrow> (Inl OSError, s)
      | Some (File Data) \<Rightarrow> (Inl ReadError, s)
      | Some (File (TarGz ms truncated)) \<Rightarrow>
          (if ms = [] \<and> truncated then (Inl EOFError, s)
           else (Inr \<lparr>tar_name = name, tar_members = ms, tar_truncated = truncated\<rparr>,
                 s\<lparr>open_archives := name # open_archives s\<rparr>)))"

text \<open>
  \<^verbatim>\<open>tar.extractall(path=dest)\<close>: what was extracted before a failure stays; a stream that
  ends early raises \<open>EOFError\<close> after the members read so far.
\<close>

definition extractall :: "tarfile \<Rightarrow> path \<Rightarrow> fs_state \<Rightarrow> (pyerror + unit) \<times> fs_state" where
  "extractall tar dest s =
     (let s1 = s\<lparr>extractall_log := extractall_log s @ [tar_name tar]\<rparr> in
      case extract_members dest (tar_members tar) (cwd s1) of
        (Inl e, root') \<Rightarrow> (Inl e, s1\<lparr>cwd := root'\<rparr>)
      | (Inr u, root') \<Rightarrow>
          (if tar_truncated tar then (Inl EOFError, s1\<lparr>cwd := root'\<rparr>)
           else (Inr (), s1\<lparr>cwd := root'\<rparr>)))"

definition tar_close :: "tarfile \<Rightarrow> fs_state \<Rightarrow> fs_state" where
  "tar_close tar s = s\<lparr>open_archives := remove1 (tar_name tar) (open_archives s)\<rparr>"

subsection \<open>\<open>extract_boost\<close>\<close>

definition boost_dir :: path where
  "boost_dir = [''lib'', ''boost'']"

definition extract_boost :: "fs_state \<Rightarrow> (pyerror + unit) \<times> fs_state" where
  "extract_boost s =
     (if \<not> isdir (cwd s) boost_dir then
        (case glob (cwd s) [''lib'', ''boost*.tar.gz''] of
           [] \<Rightarrow> (Inl IndexError, s)
         | boost_archive # others \<Rightarrow>
             (case tarfile_open boost_archive s of
                (Inl e, s1) \<Rightarrow> (Inl e, s1)
              | (Inr tar, s1) \<Rightarrow>
                  (case extractall tar boost_dir s1 of
                     (Inl e, s2) \<Rightarrow> (Inl e, s2)
                   | (Inr u, s2) \<Rightarrow> (Inr (), tar_close tar s2))))
      else (Inr (), s))"

section \<open>Example compilers\<close>

definition gcc :: ccompiler where
  "gcc = \<lparr>compiler_type = ''unix'', compile = (\<lambda>args. Compiled),
          compiler_so = FlagList [''gcc'', ''-Wstrict-prototypes'', ''-fPIC'']\<rparr>"

definition gcc_cxx11 :: ccompiler where
  "gcc_cxx11 = \<lparr>compiler_type = ''unix'',
     compile = (\<lambda>args. if args = [''-std=c++11''] then Compiled else Raises CompileError),
     compiler_so = FlagList [''gcc'', ''-fPIC'']\<rparr>"

definition cc_cxx98 :: ccompiler where
  "cc_cxx98 = \<lparr>compiler_type = ''unix'', compile = (\<lambda>args. Raises CompileError),
     compiler_so = Tuple [''cc'']\<rparr>"

definition msvc :: ccompiler where
  "msvc = \<lparr>compiler_type = ''msvc'', compile = (\<lambda>args. Compiled), compiler_so = NoAttribute\<rparr>"

definition msvc_broken :: ccompiler where
  "msvc_broken = \<lparr>compiler_type = ''msvc'', compile = (\<lambda>args. Raises DistutilsPlatformError),
     compiler_so = NoAttribute\<rparr>"

definition mingw32 :: ccompiler where
  "mingw32 = \<lparr>compiler_type = ''mingw32'', compile = (\<lambda>args. Compiled),
     compiler_so = FlagList [''gcc'', ''-mdll'', ''-O'', ''-Wall'']\<rparr>"

section \<open>Example file systems\<close>

text \<open>A checkout with the sources of Eigen in place and boost still packed.\<close>

definition checkout :: "content \<Rightarrow> node" where
  "checkout boost =
     Dir [(''setup.py'', File Data),
          (''lib'',
           Dir [(''boost_1_71_0.tar.gz'', File boost),
                (''eigen'',
                 Dir [(''.hgignore'', File Data),
                      (''Eigen'', Dir [(''Core'', File Data)]),
                      (''unsupported'', Dir [(''README.txt'', File Data)])])])]"

definition boost_archive :: content where
  "boost_archive =
     TarGz [Member [] ''boost'' True, Member [''boost''] ''config.hpp'' False] False"

definition fresh :: "content \<Rightarrow> fs_state" where
  "fresh boost = \<lparr>cwd = checkout boost, open_archives = [], extractall_log = []\<rparr>"

section \<open>Probing a flag\<close>

lemma has_flag_log: "snd (has_flag c f log) = log @ [[f]]"
  by (simp add: has_flag_def split: compile_outcome.split)

lemma has_flag_fst_log: "fst (has_flag c f log) = fst (has_flag c f log')"
  by (simp add: has_flag_def split: compile_outcome.split)

lemma has_flag_eq: "has_flag c f log = (fst (has_flag c f l), log @ [[f]])"
  using has_flag_log [of c f log] has_flag_fst_log [of c f log l]
  by (simp add: prod_eq_iff)

lemma cpp_flag_loop_first:
  assumes "\<forall>g\<in>set rejected. fst (has_flag c g l) = Inr False"
    and "fst (has_flag c flag l) = Inr True"
  shows "cpp_flag_loop c (rejected @ flag # rest) log =
           (Inr flag, log @ map (\<lambda>g. [g]) (rejected @ [flag]))"
  using assms
proof (induction rejected arbitrary: log)
  case Nil
  then show ?case by (simp add: has_flag_eq [of c flag log l])
next
  case (Cons g gs)
  then show ?case by (simp add: has_flag_eq [of c g log l])
qed

lemma cpp_flag_loop_none:
  assumes "\<forall>g\<in>set flags. fst (has_flag c g l) = Inr False"
  shows "cpp_flag_loop c flags log = (Inl unsupported_compiler, log @ map (\<lambda>g. [g]) flags)"
  using assms
proof (induction flags arbitrary: log)
  case Nil
  then show ?case by simp
next
  case (Cons g gs)
  then show ?case by (simp add: has_flag_eq [of c g log l])
qed

section \<open>Claims about \<open>has_flag\<close> and \<open>cpp_flag\<close>\<close>

text \<open>
  C1. \<open>cpp_flag\<close> tries the candidates \<^verbatim>\<open>['-std=c++14', '-std=c++11']\<close> in this order and
  returns the first one that \<open>has_flag\<close> accepts, having probed the candidates before it and
  none after it. If \<^verbatim>\<open>-std=c++14\<close> is accepted it is returned after a single probe; if it is
  rejected and \<^verbatim>\<open>-std=c++11\<close> is accepted, \<^verbatim>\<open>-std=c++11\<close> is returned.
\<close>

theorem cpp_flag_first_accepted:
  "cpp_flags = [''-std=c++14'', ''-std=c++11''] \<and>
   (\<forall>rejected flag rest.
      cpp_flags = rejected @ flag # rest \<and>
      (\<forall>g\<in>set rejected. fst (has_flag c g l) = Inr False) \<and>
      fst (has_flag c flag l) = Inr True \<longrightarrow>
      cpp_flag c log = (Inr flag, log @ map (\<lambda>g. [g]) (rejected @ [flag]))) \<and>
   (fst (has_flag c ''-std=c++14'' l) = Inr True \<longrightarrow>
      cpp_flag c log = (Inr ''-std=c++14'', log @ [[''-std=c++14'']])) \<and>
   (fst (has_flag c ''-std=c++14'' l) = Inr False \<and>
    fst (has_flag c ''-std=c++11'' l) = Inr True \<longrightarrow>
      cpp_flag c log = (Inr ''-std=c++11'', log @ [[''-std=c++14''], [''-std=c++11'']]))"
proof (intro conjI allI impI)
  show "cpp_flags = [''-std=c++14'', ''-std=c++11'']"
    by (simp add: cpp_flags_def)
next
  fix rejected flag rest
  assume h: "cpp_flags = rejected @ flag # rest \<and>
      (\<forall>g\<in>set rejected. fst (has_flag c g l) = Inr False) \<and>
      fst (has_flag c flag l) = Inr True"
  then have "cpp_flag_loop c (rejected @ flag # rest) log =
      (Inr flag, log @ map (\<lambda>g. [g]) (rejected @ [flag]))"
    by (intro cpp_flag_loop_first [of rejected c l flag]) simp_all
  with h show "cpp_flag c log = (Inr flag, log @ map (\<lambda>g. [g]) (rejected @ [flag]))"
    by (simp add: cpp_flag_def)
next
  assume "fst (has_flag c ''-std=c++14'' l) = Inr True"
  then show "cpp_flag c log = (Inr ''-std=c++14'', log @ [[''-std=c++14'']])"
    using cpp_flag_loop_first [of "[]" c l "''-std=c++14''" "[''-std=c++11'']" log]
    by (simp add: cpp_flag_def cpp_flags_def)
next
  assume "fst (has_flag c ''-std=c++14'' l) = Inr False \<and>
    fst (has_flag c ''-std=c++11'' l) = Inr True"
  then show "cpp_flag c log =
      (Inr ''-std=c++11'', log @ [[''-std=c++14''], [''-std=c++11'']])"
    using cpp_flag_loop_first [of "[''-std=c++14'']" c l "''-std=c++11''" "[]" log]
    by (simp add: cpp_flag_def cpp_flags_def)
qed

theorem cpp_flag_first_accepted_witness:
  "fst (has_flag gcc ''-std=c++14'' []) = Inr True \<and>
   cpp_flag gcc [] = (Inr ''-std=c++14'', [[''-std=c++14'']]) \<and>
   fst (has_flag gcc_cxx11 ''-std=c++14'' []) = Inr False \<and>
   fst (has_flag gcc_cxx11 ''-std=c++11'' []) = Inr True \<and>
   cpp_flag gcc_cxx11 [] = (Inr ''-std=c++11'', [[''-std=c++14''], [''-std=c++11'']])"
proof -
  have a: "fst (has_flag gcc ''-std=c++14'' []) = Inr True"
    by (simp add: has_flag_def gcc_def)
  have b: "fst (has_flag gcc_cxx11 ''-std=c++14'' []) = Inr False"
    by (simp add: has_flag_def gcc_cxx11_def)
  have c: "fst (has_flag gcc_cxx11 ''-std=c++11'' []) = Inr True"
    by (simp add: has_flag_def gcc_cxx11_def)
  show ?thesis
    using a b c cpp_flag_first_accepted [of gcc "[]" "[]"]
      cpp_flag_first_accepted [of gcc_cxx11 "[]" "[]"]
    by simp
qed

text \<open>
  C2. When \<open>has_flag\<close> returns false for every candidate, \<open>cpp_flag\<close> raises the
  \<^verbatim>\<open>RuntimeError\<close> after having probed all of them, and returns no flag.
\<close>

theorem cpp_flag_unsupported:
  assumes "\<forall>g\<in>set cpp_flags. fst (has_flag c g l) = Inr False"
  shows "cpp_flag c log =
           (Inl (RuntimeError ''Unsupported compiler -- at least C++11 support is needed!''),
            log @ [[''-std=c++14''], [''-std=c++11'']]) \<and>
         (\<forall>flag. fst (cpp_flag c log) \<noteq> Inr flag)"
  using cpp_flag_loop_none [OF assms, of log]
  by (simp add: cpp_flag_def cpp_flags_def unsupported_compiler_def)

theorem cpp_flag_unsupported_witness:
  "fst (has_flag cc_cxx98 ''-std=c++14'' []) = Inr False \<and>
   fst (has_flag cc_cxx98 ''-std=c++11'' []) = Inr False \<and>
   cpp_flag cc_cxx98 [] =
     (Inl (RuntimeError ''Unsupported compiler -- at least C++11 support is needed!''),
      [[''-std=c++14''], [''-std=c++11'']])"
proof -
  have a: "fst (has_flag cc_cxx98 ''-std=c++14'' []) = Inr False"
    and b: "fst (has_flag cc_cxx98 ''-std=c++11'' []) = Inr False"
    by (simp_all add: has_flag_def cc_cxx98_def)
  then have h: "\<forall>g\<in>set cpp_flags. fst (has_flag cc_cxx98 g []) = Inr False"
    by (simp add: cpp_flags_def)
  from cpp_flag_unsupported [OF h, of "[]"] a b show ?thesis
    by simp
qed

text \<open>
  C4, as the specification states it: every failure of the probe gives \<open>False\<close>. The probe
  of a compiler that raises \<open>DistutilsPlatformError\<close> does not return \<open>False\<close>; the
  exception leaves \<open>has_flag\<close>.
\<close>

theorem has_flag_other_error_propagates:
  "has_flag msvc_broken ''-fvisibility=hidden'' [] =
     (Inl DistutilsPlatformError, [[''-fvisibility=hidden'']]) \<and>
   fst (has_flag msvc_broken ''-fvisibility=hidden'' []) \<noteq> Inr False"
  by (simp add: has_flag_def msvc_broken_def)

text \<open>
  C4, amended. \<open>has_flag\<close> returns \<open>True\<close> when the compilation returns and \<open>False\<close> when it
  raises \<open>CompileError\<close>; an exception of any other class is not caught and leaves
  \<open>has_flag\<close> as it was raised. In each case the compiler was called exactly once, with
  the flag as its only extra argument.
\<close>

theorem has_flag_outcome:
  "(compile c [f] = Compiled \<longrightarrow> has_flag c f log = (Inr True, log @ [[f]])) \<and>
   (compile c [f] = Raises CompileError \<longrightarrow> has_flag c f log = (Inr False, log @ [[f]])) \<and>
   (\<forall>e. e \<noteq> CompileError \<and> compile c [f] = Raises e \<longrightarrow>
      has_flag c f log = (Inl e, log @ [[f]]))"
  by (simp add: has_flag_def)

theorem has_flag_outcome_witness:
  "compile gcc [''-std=c++14''] = Compiled \<and>
   has_flag gcc ''-std=c++14'' [] = (Inr True, [[''-std=c++14'']]) \<and>
   compile gcc_cxx11 [''-std=c++14''] = Raises CompileError \<and>
   has_flag gcc_cxx11 ''-std=c++14'' [] = (Inr False, [[''-std=c++14'']]) \<and>
   DistutilsPlatformError \<noteq> CompileError \<and>
   compile msvc_broken [''-std=c++14''] = Raises DistutilsPlatformError \<and>
   has_flag msvc_broken ''-std=c++14'' [] = (Inl DistutilsPlatformError, [[''-std=c++14'']])"
proof -
  have a: "compile gcc [''-std=c++14''] = Compiled"
    by (simp add: gcc_def)
  have b: "compile gcc_cxx11 [''-std=c++14''] = Raises CompileError"
    by (simp add: gcc_cxx11_def)
  have c: "compile msvc_broken [''-std=c++14''] = Raises DistutilsPlatformError"
    by (simp add: msvc_broken_def)
  show ?thesis
    using a b c has_flag_outcome [of gcc "''-std=c++14''" "[]"]
      has_flag_outcome [of gcc_cxx11 "''-std=c++14''" "[]"]
      has_flag_outcome [of msvc_broken "''-std=c++14''" "[]"]
    by simp
qed

section \<open>One run of \<open>build_extensions\<close>\<close>

lemma allocated_c_opts: "allocated s \<Longrightarrow> map_of (c_opts s) k = Some a \<Longrightarrow> a < next_addr s"
  by (force simp: allocated_def dest: map_of_SomeD)

text \<open>The guarded removal always returns.\<close>

lemma remove_strict_prototypes_Inr: "\<exists>cc'. remove_strict_prototypes cc = Inr cc'"
  by (simp add: remove_strict_prototypes_def compiler_so_remove_def list_remove_def
      split: so_attr.split)

text \<open>The state after both dictionary lookups.\<close>

lemma lookups:
  assumes "allocated s"
    and "dict_get (c_opts s) (compiler_type (compiler s)) s = (opts, s1)"
    and "dict_get (l_opts s1) (compiler_type (compiler s)) s1 = (link_opts, s2)"
  shows "opts = opts_addr s \<and> heap s2 opts = opts_before s \<and>
         compiler s2 = compiler s \<and> version s2 = version s \<and>
         version_info s2 = version_info s \<and> compile_log s2 = compile_log s \<and>
         extensions s2 = extensions s"
  using assms
  by (auto simp: dict_get_def opts_addr_def opts_before_def
      split: option.splits dest: allocated_c_opts)

text \<open>What the two branches append, what they return and what they leave alone.\<close>

lemma unix_flags_heap:
  "heap (snd (unix_flags a s)) a =
     heap s a @ version_info_define (version s) #
       (case fst (cpp_flag (compiler s) (compile_log s)) of
          Inl e \<Rightarrow> []
        | Inr flag \<Rightarrow>
            flag # (if fst (has_flag (compiler s) ''-fvisibility=hidden'' l) = Inr True
                    then [''-fvisibility=hidden''] else []))"
proof -
  define r where "r = fst (has_flag (compiler s) ''-fvisibility=hidden'' l)"
  have h: "has_flag (compiler s) ''-fvisibility=hidden'' log =
      (r, log @ [[''-fvisibility=hidden'']])" for log
    unfolding r_def by (rule has_flag_eq)
  show ?thesis
    unfolding r_def [symmetric]
    by (auto simp: unix_flags_def list_append_def Let_def h split: prod.splits sum.splits)
qed

lemma unix_flags_result:
  "fst (unix_flags a s) =
     (case fst (cpp_flag (compiler s) (compile_log s)) of
        Inl e \<Rightarrow> Inl e
      | Inr flag \<Rightarrow>
          (case fst (has_flag (compiler s) ''-fvisibility=hidden'' l) of
             Inl e \<Rightarrow> Inl e
           | Inr b \<Rightarrow> Inr ()))"
proof -
  define r where "r = fst (has_flag (compiler s) ''-fvisibility=hidden'' l)"
  have h: "has_flag (compiler s) ''-fvisibility=hidden'' log =
      (r, log @ [[''-fvisibility=hidden'']])" for log
    unfolding r_def by (rule has_flag_eq)
  show ?thesis
    unfolding r_def [symmetric]
    by (auto simp: unix_flags_def list_append_def Let_def h split: prod.splits sum.splits)
qed

lemma unix_flags_frame:
  "extensions (snd (unix_flags a s)) = extensions s \<and>
   compiler (snd (unix_flags a s)) = compiler s \<and>
   c_opts (snd (unix_flags a s)) = c_opts s"
  by (auto simp: unix_flags_def list_append_def Let_def split: prod.splits sum.splits)

lemma msvc_flags_heap:
  "heap (msvc_flags a s) a =
     heap s a @ [if version_info_ge (version_info s) (3, 9)
                 then version_info_define (version s)
                 else version_info_define_escaped (version s)]"
  by (simp add: msvc_flags_def list_append_def)

lemma msvc_flags_frame:
  "extensions (msvc_flags a s) = extensions s \<and> compiler (msvc_flags a s) = compiler s \<and>
   compile_log (msvc_flags a s) = compile_log s"
  by (simp add: msvc_flags_def list_append_def)

text \<open>What one run appends to the list \<open>opts\<close>.\<close>

lemma build_extensions_heap:
  assumes "allocated s"
  shows "heap (snd (build_extensions s)) (opts_addr s) =
     opts_before s @
       (if compiler_type (compiler s) = ''unix'' then
          version_info_define (version s) #
           (case fst (cpp_flag (compiler s) (compile_log s)) of
              Inl e \<Rightarrow> []
            | Inr flag \<Rightarrow>
               flag # (if fst (has_flag (compiler s) ''-fvisibility=hidden'' l) = Inr True
                    then [''-fvisibility=hidden''] else []))
        else if compiler_type (compiler s) = ''msvc'' then
          [if version_info_ge (version_info s) (3, 9)
           then version_info_define (version s)
           else version_info_define_escaped (version s)]
        else [])"
proof -
  obtain opts s1 where a: "dict_get (c_opts s) (compiler_type (compiler s)) s = (opts, s1)"
    by fastforce
  obtain link_opts s2 where
    b: "dict_get (l_opts s1) (compiler_type (compiler s)) s1 = (link_opts, s2)"
    by fastforce
  note f = lookups [OF assms a b]
  have c: "compiler s1 = compiler s"
    using a by (auto simp: dict_get_def split: option.splits)
  show ?thesis
    using a b f c unix_flags_heap [of opts s2 l] unix_flags_frame [of opts s2]
      msvc_flags_heap [of opts s2] msvc_flags_frame [of opts s2]
    by (auto simp: build_extensions_def Let_def
        split: prod.splits sum.splits)
qed


text \<open>An exception can leave \<open>build_extensions\<close> from the probes of the unix branch only.\<close>

lemma build_extensions_result:
  "fst (build_extensions s) =
     (if compiler_type (compiler s) = ''unix'' then
        (case fst (cpp_flag (compiler s) (compile_log s)) of
           Inl e \<Rightarrow> Inl e
         | Inr flag \<Rightarrow>
            (case fst (has_flag (compiler s) ''-fvisibility=hidden'' l) of
               Inl e \<Rightarrow> Inl e
             | Inr b \<Rightarrow> Inr ()))
      else Inr ())"
proof -
  obtain opts s1 where a: "dict_get (c_opts s) (compiler_type (compiler s)) s = (opts, s1)"
    by fastforce
  obtain link_opts s2 where
    b: "dict_get (l_opts s1) (compiler_type (compiler s)) s1 = (link_opts, s2)"
    by fastforce
  have c: "compiler s1 = compiler s" "compile_log s1 = compile_log s"
    using a by (auto simp: dict_get_def split: option.splits)
  have d: "compiler s2 = compiler s1" "compile_log s2 = compile_log s1"
    using b by (auto simp: dict_get_def split: option.splits)
  obtain cc where e: "remove_strict_prototypes (compiler s) = Inr cc"
    using remove_strict_prototypes_Inr by blast
  show ?thesis
    using a b c d e unix_flags_result [of opts s2 l] unix_flags_frame [of opts s2]
      msvc_flags_frame [of opts s2]
    by (auto simp: build_extensions_def Let_def split: prod.splits sum.splits)
qed

text \<open>After a run that returns, every extension carries the list \<open>opts\<close> itself.\<close>

lemma build_extensions_extensions:
  assumes "fst (build_extensions s) = Inr ()"
  shows "map extra_compile_args (extensions (snd (build_extensions s))) =
           map (\<lambda>ext. opts_addr s) (extensions s)"
proof -
  obtain opts s1 where a: "dict_get (c_opts s) (compiler_type (compiler s)) s = (opts, s1)"
    by fastforce
  obtain link_opts s2 where
    b: "dict_get (l_opts s1) (compiler_type (compiler s)) s1 = (link_opts, s2)"
    by fastforce
  have c: "opts = opts_addr s" "extensions s1 = extensions s"
    using a by (auto simp: dict_get_def opts_addr_def split: option.splits)
  have d: "extensions s2 = extensions s1"
    using b by (auto simp: dict_get_def split: option.splits)
  show ?thesis
    using assms a b c d unix_flags_frame [of opts s2] msvc_flags_frame [of opts s2]
    by (auto simp: build_extensions_def Let_def comp_def split: prod.splits sum.splits if_splits)
qed

text \<open>Only the unix branch calls the compiler.\<close>

lemma build_extensions_no_probe:
  assumes "compiler_type (compiler s) \<noteq> ''unix''"
  shows "compile_log (snd (build_extensions s)) = compile_log s"
proof -
  obtain opts s1 where a: "dict_get (c_opts s) (compiler_type (compiler s)) s = (opts, s1)"
    by fastforce
  obtain link_opts s2 where
    b: "dict_get (l_opts s1) (compiler_type (compiler s)) s1 = (link_opts, s2)"
    by fastforce
  have c: "compiler s1 = compiler s" "compile_log s1 = compile_log s"
    using a by (auto simp: dict_get_def split: option.splits)
  have d: "compiler s2 = compiler s1" "compile_log s2 = compile_log s1"
    using b by (auto simp: dict_get_def split: option.splits)
  show ?thesis
    using assms a b c d msvc_flags_frame [of opts s2]
    by (auto simp: build_extensions_def Let_def split: prod.splits sum.splits)
qed

section \<open>Claims about \<open>build_extensions\<close>\<close>

lemmas build_defs =
  build_extensions_def BuildExt_def dict_get_def unix_flags_def msvc_flags_def
  cpp_flag_def cpp_flags_def has_flag_def list_append_def remove_strict_prototypes_def
  compiler_so_remove_def list_remove_def version_info_define_def
  version_info_define_escaped_def version_info_ge_def darwin_opts_def extension_args_def
  opts_addr_def opts_before_def allocated_def Let_def

text \<open>
  C6. For the compiler type \<^verbatim>\<open>msvc\<close> the version macro is appended as
  \<^verbatim>\<open>/DVERSION_INFO=\"...\"\<close> (each quote preceded by a backslash) when
  \<^verbatim>\<open>sys.version_info\<close> is below \<^verbatim>\<open>(3, 9)\<close>, and as \<^verbatim>\<open>-DVERSION_INFO="..."\<close> from
  \<^verbatim>\<open>(3, 9)\<close> on; for \<^verbatim>\<open>unix\<close> it is appended as \<^verbatim>\<open>-DVERSION_INFO="..."\<close> whatever the
  version is. The macro is the first thing appended to \<open>opts\<close>, the list every extension
  receives as its compile arguments when the run returns.
\<close>

theorem version_macro_format:
  assumes "allocated s"
  shows "(compiler_type (compiler s) = ''msvc'' \<and> \<not> version_info_ge (version_info s) (3, 9) \<longrightarrow>
            heap (snd (build_extensions s)) (opts_addr s) =
              opts_before s @
                [''/DVERSION_INFO='' @ [backslash, dquote] @ version s @ [backslash, dquote]]) \<and>
         (compiler_type (compiler s) = ''msvc'' \<and> version_info_ge (version_info s) (3, 9) \<longrightarrow>
            heap (snd (build_extensions s)) (opts_addr s) =
              opts_before s @ [''-DVERSION_INFO='' @ [dquote] @ version s @ [dquote]]) \<and>
         (compiler_type (compiler s) = ''unix'' \<longrightarrow>
            (\<exists>rest. heap (snd (build_extensions s)) (opts_addr s) =
              opts_before s @ (''-DVERSION_INFO='' @ [dquote] @ version s @ [dquote]) # rest)) \<and>
         (fst (build_extensions s) = Inr () \<longrightarrow>
            map extra_compile_args (extensions (snd (build_extensions s))) =
              map (\<lambda>ext. opts_addr s) (extensions s))"
  using build_extensions_heap [OF assms, of "[]"] build_extensions_extensions [of s]
  by (simp add: version_info_define_def version_info_define_escaped_def)

text \<open>C6 on the msvc compiler under Python 3.8 and under Python 3.9.\<close>

theorem version_macro_format_witness:
  "allocated (BuildExt ''win32'' msvc ''1.0'' (3, 8)) \<and>
   \<not> version_info_ge (3, 8) (3, 9) \<and>
   heap (snd (build_extensions (BuildExt ''win32'' msvc ''1.0'' (3, 8)))) 0 =
     [''/EHsc'', ''/DVERSION_INFO='' @ [backslash, dquote] @ ''1.0'' @ [backslash, dquote]] \<and>
   version_info_ge (3, 9) (3, 9) \<and>
   heap (snd (build_extensions (BuildExt ''win32'' msvc ''1.0'' (3, 9)))) 0 =
     [''/EHsc'', ''-DVERSION_INFO='' @ [dquote] @ ''1.0'' @ [dquote]]"
proof -
  have a: "allocated (BuildExt ''win32'' msvc ''1.0'' vi)" for vi
    by (simp add: allocated_def BuildExt_def)
  have b: "opts_addr (BuildExt ''win32'' msvc ''1.0'' vi) = 0"
    "opts_before (BuildExt ''win32'' msvc ''1.0'' vi) = [''/EHsc'']"
    "compiler_type (compiler (BuildExt ''win32'' msvc ''1.0'' vi)) = ''msvc''"
    "version_info (BuildExt ''win32'' msvc ''1.0'' vi) = vi"
    "version (BuildExt ''win32'' msvc ''1.0'' vi) = ''1.0''" for vi
    by (simp_all add: opts_addr_def opts_before_def BuildExt_def msvc_def)
  have c: "\<not> version_info_ge (3, 8) (3, 9)" "version_info_ge (3, 9) (3, 9)"
    by (simp_all add: version_info_ge_def)
  show ?thesis
    using a b c version_macro_format [OF a [of "(3, 8)"]] version_macro_format [OF a [of "(3, 9)"]]
    by simp
qed

text \<open>
  C5. Two runs of \<open>build_extensions\<close> for the same toolchain should leave the extension
  with the same compile arguments as one run. They do not: both runs append to the one
  list stored in the class attribute \<open>c_opts\<close>, and after the second run the extension
  carries every appended flag twice.
\<close>

theorem build_extensions_twice:
  "extension_args (snd (build_extensions (BuildExt ''linux'' gcc ''1.0'' (3, 8)))) =
     [([''-DVERSION_INFO='' @ [dquote] @ ''1.0'' @ [dquote], ''-std=c++14'',
        ''-fvisibility=hidden''], [])] \<and>
   extension_args
     (snd (build_extensions (snd (build_extensions (BuildExt ''linux'' gcc ''1.0'' (3, 8)))))) =
     [([''-DVERSION_INFO='' @ [dquote] @ ''1.0'' @ [dquote], ''-std=c++14'',
        ''-fvisibility=hidden'',
        ''-DVERSION_INFO='' @ [dquote] @ ''1.0'' @ [dquote], ''-std=c++14'',
        ''-fvisibility=hidden''], [])]"
  by (simp add: build_defs gcc_def)


text \<open>
  C7, as the specification states it: the version macro is skipped for \<^verbatim>\<open>msvc\<close>. On the
  msvc compiler the run appends the macro to \<^verbatim>\<open>/EHsc\<close>.
\<close>

theorem msvc_gets_version_macro:
  "compiler_type (compiler (BuildExt ''win32'' msvc ''1.0'' (3, 9))) = ''msvc'' \<and>
   fst (build_extensions (BuildExt ''win32'' msvc ''1.0'' (3, 9))) = Inr () \<and>
   extension_args (snd (build_extensions (BuildExt ''win32'' msvc ''1.0'' (3, 9)))) =
     [([''/EHsc'', ''-DVERSION_INFO='' @ [dquote] @ ''1.0'' @ [dquote]], [])]"
  by (simp add: build_defs msvc_def)

text \<open>
  C7, amended. The language-standard flag and, when the compiler accepts it,
  \<^verbatim>\<open>-fvisibility=hidden\<close> are appended for the compiler type \<^verbatim>\<open>unix\<close> only, after the
  version macro. For \<^verbatim>\<open>msvc\<close> the version macro alone is appended, in the form that
  depends on the Python version, and the compiler is not probed. For any other compiler
  type nothing is appended and the compiler is not probed.
\<close>

theorem flags_by_compiler_type:
  assumes "allocated s"
  shows "(compiler_type (compiler s) = ''unix'' \<and>
          fst (cpp_flag (compiler s) (compile_log s)) = Inr flag \<and>
          fst (has_flag (compiler s) ''-fvisibility=hidden'' l) = Inr supported \<longrightarrow>
            fst (build_extensions s) = Inr () \<and>
            heap (snd (build_extensions s)) (opts_addr s) =
              opts_before s @ [version_info_define (version s), flag] @
                (if supported then [''-fvisibility=hidden''] else [])) \<and>
         (compiler_type (compiler s) = ''msvc'' \<longrightarrow>
            fst (build_extensions s) = Inr () \<and>
            heap (snd (build_extensions s)) (opts_addr s) =
              opts_before s @
                [if version_info_ge (version_info s) (3, 9)
                 then version_info_define (version s)
                 else version_info_define_escaped (version s)] \<and>
            compile_log (snd (build_extensions s)) = compile_log s) \<and>
         (compiler_type (compiler s) \<noteq> ''unix'' \<and> compiler_type (compiler s) \<noteq> ''msvc'' \<longrightarrow>
            fst (build_extensions s) = Inr () \<and>
            heap (snd (build_extensions s)) (opts_addr s) = opts_before s \<and>
            compile_log (snd (build_extensions s)) = compile_log s) \<and>
         (fst (build_extensions s) = Inr () \<longrightarrow>
            map extra_compile_args (extensions (snd (build_extensions s))) =
              map (\<lambda>ext. opts_addr s) (extensions s))"
proof (intro conjI impI)
  assume "compiler_type (compiler s) = ''unix'' \<and>
          fst (cpp_flag (compiler s) (compile_log s)) = Inr flag \<and>
          fst (has_flag (compiler s) ''-fvisibility=hidden'' l) = Inr supported"
  then show "fst (build_extensions s) = Inr ()"
    and "heap (snd (build_extensions s)) (opts_addr s) =
              opts_before s @ [version_info_define (version s), flag] @
                (if supported then [''-fvisibility=hidden''] else [])"
    using build_extensions_result [of s l] build_extensions_heap [OF assms, of l]
    by simp_all
next
  assume "compiler_type (compiler s) = ''msvc''"
  then show "fst (build_extensions s) = Inr ()"
    and "heap (snd (build_extensions s)) (opts_addr s) =
              opts_before s @
                [if version_info_ge (version_info s) (3, 9)
                 then version_info_define (version s)
                 else version_info_define_escaped (version s)]"
    and "compile_log (snd (build_extensions s)) = compile_log s"
    using build_extensions_result [of s l] build_extensions_heap [OF assms, of l]
      build_extensions_no_probe [of s]
    by simp_all
next
  assume "compiler_type (compiler s) \<noteq> ''unix'' \<and> compiler_type (compiler s) \<noteq> ''msvc''"
  then show "fst (build_extensions s) = Inr ()"
    and "heap (snd (build_extensions s)) (opts_addr s) = opts_before s"
    and "compile_log (snd (build_extensions s)) = compile_log s"
    using build_extensions_result [of s l] build_extensions_heap [OF assms, of l]
      build_extensions_no_probe [of s]
    by simp_all
next
  assume "fst (build_extensions s) = Inr ()"
  then show "map extra_compile_args (extensions (snd (build_extensions s))) =
              map (\<lambda>ext. opts_addr s) (extensions s)"
    by (rule build_extensions_extensions)
qed

text \<open>C7, amended, on a unix, an msvc and a mingw32 compiler.\<close>

theorem flags_by_compiler_type_witness:
  "allocated (BuildExt ''linux'' gcc ''1.0'' (3, 8)) \<and>
   fst (cpp_flag gcc []) = Inr ''-std=c++14'' \<and>
   fst (has_flag gcc ''-fvisibility=hidden'' []) = Inr True \<and>
   heap (snd (build_extensions (BuildExt ''linux'' gcc ''1.0'' (3, 8)))) 1 =
     [''-DVERSION_INFO='' @ [dquote] @ ''1.0'' @ [dquote], ''-std=c++14'',
      ''-fvisibility=hidden''] \<and>
   allocated (BuildExt ''win32'' msvc ''1.0'' (3, 8)) \<and>
   heap (snd (build_extensions (BuildExt ''win32'' msvc ''1.0'' (3, 8)))) 0 =
     [''/EHsc'', ''/DVERSION_INFO='' @ [backslash, dquote] @ ''1.0'' @ [backslash, dquote]] \<and>
   compile_log (snd (build_extensions (BuildExt ''win32'' msvc ''1.0'' (3, 8)))) = [] \<and>
   allocated (BuildExt ''win32'' mingw32 ''1.0'' (3, 8)) \<and>
   heap (snd (build_extensions (BuildExt ''win32'' mingw32 ''1.0'' (3, 8)))) 6 = [] \<and>
   compile_log (snd (build_extensions (BuildExt ''win32'' mingw32 ''1.0'' (3, 8)))) = [] \<and>
   map extra_compile_args
     (extensions (snd (build_extensions (BuildExt ''win32'' mingw32 ''1.0'' (3, 8))))) = [6]"
proof -
  have a: "allocated (BuildExt p cc ''1.0'' (3, 8))" for p cc
    by (simp add: allocated_def BuildExt_def)
  have b: "fst (cpp_flag gcc []) = Inr ''-std=c++14''"
    "fst (has_flag gcc ''-fvisibility=hidden'' []) = Inr True"
    by (simp_all add: cpp_flag_def cpp_flags_def has_flag_def gcc_def)
  have c: "opts_addr (BuildExt ''linux'' gcc ''1.0'' (3, 8)) = 1"
    "opts_before (BuildExt ''linux'' gcc ''1.0'' (3, 8)) = []"
    "opts_addr (BuildExt ''win32'' msvc ''1.0'' (3, 8)) = 0"
    "opts_before (BuildExt ''win32'' msvc ''1.0'' (3, 8)) = [''/EHsc'']"
    "opts_addr (BuildExt ''win32'' mingw32 ''1.0'' (3, 8)) = 6"
    "opts_before (BuildExt ''win32'' mingw32 ''1.0'' (3, 8)) = []"
    by (simp_all add: opts_addr_def opts_before_def BuildExt_def gcc_def msvc_def mingw32_def)
  have d: "compiler (BuildExt p cc ''1.0'' (3, 8)) = cc"
    "compile_log (BuildExt p cc ''1.0'' (3, 8)) = []"
    "version (BuildExt p cc ''1.0'' (3, 8)) = ''1.0''"
    "version_info (BuildExt p cc ''1.0'' (3, 8)) = (3, 8)"
    "extensions (BuildExt p cc ''1.0'' (3, 8)) = [\<lparr>extra_compile_args = 4, extra_link_args = 5\<rparr>]"
    for p cc
    by (simp_all add: BuildExt_def)
  have e: "compiler_type gcc = ''unix''" "compiler_type msvc = ''msvc''"
    "compiler_type mingw32 = ''mingw32''"
    by (simp_all add: gcc_def msvc_def mingw32_def)
  show ?thesis
    using a b
      flags_by_compiler_type [OF a [of "''linux''" gcc], of "''-std=c++14''" "[]" True]
      flags_by_compiler_type [OF a [of "''win32''" msvc], of "''-std=c++14''" "[]" True]
      flags_by_compiler_type [OF a [of "''win32''" mingw32], of "''-std=c++14''" "[]" True]
    by (simp add: c d e version_info_define_def version_info_define_escaped_def
        version_info_ge_def)
qed

text \<open>
  C9. Removing \<^verbatim>\<open>-Wstrict-prototypes\<close> from \<^verbatim>\<open>compiler_so\<close> never raises. When the
  attribute is missing, is a collection without \<^verbatim>\<open>remove\<close>, or is a list that does not
  hold the flag, the compiler object is left as it was; otherwise the first occurrence
  of the flag is removed and nothing else changes. No exception that leaves
  \<open>build_extensions\<close> comes from this step: each one comes from a probe of the unix branch.
\<close>

theorem remove_strict_prototypes_never_raises:
  "(\<exists>cc'. remove_strict_prototypes cc = Inr cc') \<and>
   (compiler_so cc = NoAttribute \<or> (\<exists>xs. compiler_so cc = Tuple xs) \<or>
    (\<exists>xs. compiler_so cc = FlagList xs \<and> ''-Wstrict-prototypes'' \<notin> set xs) \<longrightarrow>
      remove_strict_prototypes cc = Inr cc) \<and>
   (\<forall>xs. compiler_so cc = FlagList xs \<and> ''-Wstrict-prototypes'' \<in> set xs \<longrightarrow>
      remove_strict_prototypes cc =
        Inr (cc\<lparr>compiler_so := FlagList (remove1 ''-Wstrict-prototypes'' xs)\<rparr>)) \<and>
   (\<forall>e. fst (build_extensions s) = Inl e \<longrightarrow>
      compiler_type (compiler s) = ''unix'' \<and>
      (fst (cpp_flag (compiler s) (compile_log s)) = Inl e \<or>
       fst (has_flag (compiler s) ''-fvisibility=hidden'' l) = Inl e))"
proof (intro conjI allI impI)
  show "\<exists>cc'. remove_strict_prototypes cc = Inr cc'"
    by (rule remove_strict_prototypes_Inr)
next
  assume "compiler_so cc = NoAttribute \<or> (\<exists>xs. compiler_so cc = Tuple xs) \<or>
    (\<exists>xs. compiler_so cc = FlagList xs \<and> ''-Wstrict-prototypes'' \<notin> set xs)"
  then show "remove_strict_prototypes cc = Inr cc"
    by (auto simp: remove_strict_prototypes_def compiler_so_remove_def list_remove_def)
next
  fix xs
  assume "compiler_so cc = FlagList xs \<and> ''-Wstrict-prototypes'' \<in> set xs"
  then show "remove_strict_prototypes cc =
        Inr (cc\<lparr>compiler_so := FlagList (remove1 ''-Wstrict-prototypes'' xs)\<rparr>)"
    by (simp add: remove_strict_prototypes_def compiler_so_remove_def list_remove_def)
next
  fix e
  assume "fst (build_extensions s) = Inl e"
  then show "compiler_type (compiler s) = ''unix''"
    and "fst (cpp_flag (compiler s) (compile_log s)) = Inl e \<or>
       fst (has_flag (compiler s) ''-fvisibility=hidden'' l) = Inl e"
    using build_extensions_result [of s l]
    by (auto split: if_splits sum.splits)
qed

text \<open>C9 on all four kinds of \<^verbatim>\<open>compiler_so\<close>.\<close>

theorem remove_strict_prototypes_never_raises_witness:
  "compiler_so msvc = NoAttribute \<and> remove_strict_prototypes msvc = Inr msvc \<and>
   compiler_so cc_cxx98 = Tuple [''cc''] \<and> remove_strict_prototypes cc_cxx98 = Inr cc_cxx98 \<and>
   compiler_so gcc_cxx11 = FlagList [''gcc'', ''-fPIC''] \<and>
   ''-Wstrict-prototypes'' \<notin> set [''gcc'', ''-fPIC''] \<and>
   remove_strict_prototypes gcc_cxx11 = Inr gcc_cxx11 \<and>
   compiler_so gcc = FlagList [''gcc'', ''-Wstrict-prototypes'', ''-fPIC''] \<and>
   ''-Wstrict-prototypes'' \<in> set [''gcc'', ''-Wstrict-prototypes'', ''-fPIC''] \<and>
   remove_strict_prototypes gcc = Inr (gcc\<lparr>compiler_so := FlagList [''gcc'', ''-fPIC'']\<rparr>) \<and>
   fst (build_extensions (BuildExt ''linux'' cc_cxx98 ''1.0'' (3, 8))) =
     Inl unsupported_compiler \<and>
   fst (cpp_flag cc_cxx98 []) = Inl unsupported_compiler"
proof -
  have a: "compiler_so msvc = NoAttribute" "compiler_so cc_cxx98 = Tuple [''cc'']"
    "compiler_so gcc_cxx11 = FlagList [''gcc'', ''-fPIC'']"
    "compiler_so gcc = FlagList [''gcc'', ''-Wstrict-prototypes'', ''-fPIC'']"
    by (simp_all add: msvc_def cc_cxx98_def gcc_cxx11_def gcc_def)
  have b: "fst (build_extensions (BuildExt ''linux'' cc_cxx98 ''1.0'' (3, 8))) =
     Inl unsupported_compiler"
    by (simp add: build_defs cc_cxx98_def)
  have c: "compiler (BuildExt ''linux'' cc_cxx98 ''1.0'' (3, 8)) = cc_cxx98"
    "compile_log (BuildExt ''linux'' cc_cxx98 ''1.0'' (3, 8)) = []"
    by (simp_all add: BuildExt_def)
  have d: "fst (has_flag cc_cxx98 ''-fvisibility=hidden'' []) \<noteq> Inl unsupported_compiler"
    by (simp add: has_flag_def cc_cxx98_def)
  show ?thesis
    using a b d
      remove_strict_prototypes_never_raises [of msvc "BuildExt ''linux'' cc_cxx98 ''1.0'' (3, 8)" "[]"]
      remove_strict_prototypes_never_raises [of cc_cxx98 "BuildExt ''linux'' cc_cxx98 ''1.0'' (3, 8)" "[]"]
      remove_strict_prototypes_never_raises [of gcc_cxx11 "BuildExt ''linux'' cc_cxx98 ''1.0'' (3, 8)" "[]"]
      remove_strict_prototypes_never_raises [of gcc "BuildExt ''linux'' cc_cxx98 ''1.0'' (3, 8)" "[]"]
    by (simp add: c)
qed

section \<open>The guard of \<open>extract_boost\<close>\<close>

text \<open>With \<^verbatim>\<open>lib/boost\<close> in place nothing happens.\<close>

lemma extract_boost_isdir: "isdir (cwd s) boost_dir \<Longrightarrow> extract_boost s = (Inr (), s)"
  by (simp add: extract_boost_def)

text \<open>Without it, a call that returns has called \<^verbatim>\<open>extractall\<close> once.\<close>

lemma extract_boost_extracts:
  assumes "\<not> isdir (cwd s) boost_dir" and "extract_boost s = (Inr (), s1)"
  shows "\<exists>a. extractall_log s1 = extractall_log s @ [a]"
proof -
  from assms obtain a others where g: "glob (cwd s) [''lib'', ''boost*.tar.gz''] = a # others"
    by (auto simp: extract_boost_def split: list.splits)
  with assms obtain tar s' where o: "tarfile_open a s = (Inr tar, s')"
    by (auto simp: extract_boost_def split: prod.splits sum.splits)
  then have l: "extractall_log s' = extractall_log s"
    by (auto simp: tarfile_open_def split: option.splits node.splits content.splits if_splits)
  from assms g o obtain s2 where e: "extractall tar boost_dir s' = (Inr (), s2)"
    and c: "s1 = tar_close tar s2"
    by (auto simp: extract_boost_def split: prod.splits sum.splits)
  from e have "extractall_log s2 = extractall_log s' @ [tar_name tar]"
    by (auto simp: extractall_def Let_def split: prod.splits sum.splits if_splits)
  with l c show ?thesis
    by (simp add: tar_close_def)
qed

text \<open>No call extracts more than once.\<close>

lemma extract_boost_log:
  "extractall_log (snd (extract_boost s)) = extractall_log s \<or>
   (\<exists>a. extractall_log (snd (extract_boost s)) = extractall_log s @ [a])"
  by (auto simp: extract_boost_def tarfile_open_def extractall_def tar_close_def Let_def
      split: list.splits option.splits node.splits content.splits prod.splits sum.splits)

section \<open>Claims about \<open>extract_boost\<close> and \<open>get_files\<close>\<close>

lemma glob_checkout:
  "glob (checkout boost) [''lib'', ''boost*.tar.gz''] = [[''lib'', ''boost_1_71_0.tar.gz'']]"
  by (simp add: glob_def has_magic_def glob1_def glob0_def listdir_def hidden_def fnmatch_def
      close_index_def checkout_def Let_def)

lemmas fs_defs =
  extract_boost_def glob_checkout [unfolded checkout_def] extractall_def tarfile_open_def tar_close_def isdir_def
  isfile_def boost_dir_def fresh_def checkout_def boost_archive_def Let_def

text \<open>
  C3, amended. A call of \<open>extract_boost\<close> returns at once and changes nothing (no write, no
  archive opened, no extraction) exactly when \<^verbatim>\<open>lib/boost\<close> is a directory. Of two calls
  in sequence the second is therefore such a no-op whenever the first has left
  \<^verbatim>\<open>lib/boost\<close> a directory; and no call extracts more than once, or at all when
  \<^verbatim>\<open>lib/boost\<close> is a directory.
\<close>

theorem extract_boost_idempotent:
  "(extract_boost s = (Inr (), s) \<longleftrightarrow> isdir (cwd s) boost_dir) \<and>
   (extract_boost s = (r, s1) \<and> isdir (cwd s1) boost_dir \<longrightarrow>
      extract_boost s1 = (Inr (), s1)) \<and>
   (extractall_log (snd (extract_boost s)) = extractall_log s \<or>
    \<not> isdir (cwd s) boost_dir \<and>
    (\<exists>a. extractall_log (snd (extract_boost s)) = extractall_log s @ [a]))"
proof (intro conjI impI)
  show "extract_boost s = (Inr (), s) \<longleftrightarrow> isdir (cwd s) boost_dir"
  proof
    assume a: "extract_boost s = (Inr (), s)"
    show "isdir (cwd s) boost_dir"
    proof (rule ccontr)
      assume "\<not> isdir (cwd s) boost_dir"
      from extract_boost_extracts [OF this a] show False
        by simp
    qed
  next
    assume "isdir (cwd s) boost_dir"
    then show "extract_boost s = (Inr (), s)"
      by (rule extract_boost_isdir)
  qed
next
  assume "extract_boost s = (r, s1) \<and> isdir (cwd s1) boost_dir"
  then show "extract_boost s1 = (Inr (), s1)"
    by (simp add: extract_boost_isdir)
next
  show "extractall_log (snd (extract_boost s)) = extractall_log s \<or>
    \<not> isdir (cwd s) boost_dir \<and>
    (\<exists>a. extractall_log (snd (extract_boost s)) = extractall_log s @ [a])"
  proof (cases "isdir (cwd s) boost_dir")
    case True
    then show ?thesis
      by (simp add: extract_boost_isdir)
  next
    case False
    with extract_boost_log [of s] show ?thesis
      by blast
  qed
qed

text \<open>C3, amended, on a checkout whose archive holds a directory and a file.\<close>

theorem extract_boost_idempotent_witness:
  "fst (extract_boost (fresh boost_archive)) = Inr () \<and>
   extractall_log (snd (extract_boost (fresh boost_archive))) = [[''lib'', ''boost_1_71_0.tar.gz'']] \<and>
   isdir (cwd (snd (extract_boost (fresh boost_archive)))) boost_dir \<and>
   extract_boost (snd (extract_boost (fresh boost_archive))) =
     (Inr (), snd (extract_boost (fresh boost_archive)))"
proof -
  have b: "fst (extract_boost (fresh boost_archive)) = Inr ()"
    by (simp add: fs_defs)
  have c: "extractall_log (snd (extract_boost (fresh boost_archive))) =
      [[''lib'', ''boost_1_71_0.tar.gz'']]"
    by (simp add: fs_defs)
  have d: "isdir (cwd (snd (extract_boost (fresh boost_archive)))) boost_dir"
    by (simp add: fs_defs)
  have e: "extract_boost (fresh boost_archive) =
      (fst (extract_boost (fresh boost_archive)), snd (extract_boost (fresh boost_archive)))"
    by simp
  from b c d e
    extract_boost_idempotent [of "fresh boost_archive" "fst (extract_boost (fresh boost_archive))"
      "snd (extract_boost (fresh boost_archive))"]
  show ?thesis
    by blast
qed

text \<open>
  C3, as the specification states it: of two calls in sequence at most one extracts, and the
  second changes nothing. With an archive that has no member the first call returns and
  leaves \<^verbatim>\<open>lib/boost\<close> absent, and the second call opens and extracts the archive again.
\<close>

theorem extract_boost_empty_archive_twice:
  "fst (extract_boost (fresh (TarGz [] False))) = Inr () \<and>
   extractall_log (snd (extract_boost (fresh (TarGz [] False)))) =
     [[''lib'', ''boost_1_71_0.tar.gz'']] \<and>
   fst (extract_boost (snd (extract_boost (fresh (TarGz [] False))))) = Inr () \<and>
   extractall_log (snd (extract_boost (snd (extract_boost (fresh (TarGz [] False)))))) =
     [[''lib'', ''boost_1_71_0.tar.gz''], [''lib'', ''boost_1_71_0.tar.gz'']] \<and>
   extract_boost (snd (extract_boost (fresh (TarGz [] False)))) \<noteq>
     (Inr (), snd (extract_boost (fresh (TarGz [] False))))"
  by (simp add: fs_defs)

text \<open>
  C8. The archive opened by \<open>extract_boost\<close> should be closed on every path out of the
  extraction. With an archive whose compressed stream ends early, \<^verbatim>\<open>extractall\<close> raises
  after the members read so far, the exception leaves \<open>extract_boost\<close>, and the archive is
  still open: \<^verbatim>\<open>tar.close()\<close> is reached only when \<^verbatim>\<open>extractall\<close> returns.
\<close>

theorem extract_boost_leaves_archive_open:
  "extract_boost
     (fresh (TarGz [Member [] ''boost'' True, Member [''boost''] ''config.hpp'' False] True)) =
   (Inl EOFError,
    \<lparr>cwd =
       Dir [(''setup.py'', File Data),
            (''lib'',
             Dir [(''boost_1_71_0.tar.gz'',
                   File (TarGz [Member [] ''boost'' True,
                                Member [''boost''] ''config.hpp'' False] True)),
                  (''eigen'',
                   Dir [(''.hgignore'', File Data),
                        (''Eigen'', Dir [(''Core'', File Data)]),
                        (''unsupported'', Dir [(''README.txt'', File Data)])]),
                  (''boost'', Dir [(''boost'', Dir [(''config.hpp'', File Data)])])])],
     open_archives = [[''lib'', ''boost_1_71_0.tar.gz'']],
     extractall_log = [[''lib'', ''boost_1_71_0.tar.gz'']]\<rparr>)"
  by (simp add: fs_defs)

text \<open>
  C10. The dependency list should hold every entry below an include directory that is not
  a directory, as the docstring of \<open>get_files\<close> says: a list with all the files in the
  paths. On a checkout with \<^verbatim>\<open>lib/eigen/.hgignore\<close>, \<^verbatim>\<open>lib/eigen/Eigen/Core\<close> and
  \<^verbatim>\<open>lib/eigen/unsupported/README.txt\<close> the first of these files is in none of the lists,
  since \<^verbatim>\<open>*\<close> matches no name that begins with a dot, and what is returned is one list for
  each include directory, none of whose elements is a file.
\<close>

theorem depends_skips_hidden_file:
  "[''lib'', ''eigen''] \<in> set get_include_paths \<and>
   isfile (checkout boost_archive) [''lib'', ''eigen'', ''.hgignore''] \<and>
   [''lib'', ''eigen'', ''.hgignore''] \<notin> set (concat (depends (checkout boost_archive))) \<and>
   depends (checkout boost_archive) =
     [[],
      [[''lib'', ''eigen'', ''Eigen'', ''Core''],
       [''lib'', ''eigen'', ''unsupported'', ''README.txt'']],
      [[''lib'', ''eigen'', ''unsupported'', ''README.txt'']], [], []]"
  by (simp add: depends_def get_files_def get_include_paths_def os_walk_def glob_def
      has_magic_def glob1_def glob0_def listdir_def fnmatch_def isdir_def isfile_def hidden_def
      checkout_def is_Dir_def Let_def)

end
